theory Spec2Isabelle
  imports Main
begin

section \<open>The to-do backend of \<open>backend/main.go\<close>\<close>

text \<open>
  A shallow embedding of the task service: the \<open>Task\<close> entity, the two storage
  backends behind the \<open>StorageBackend\<close> interface, the handlers and the
  permission-error classifier. Go's \<open>error\<close> values are built with \<open>fmt.Errorf\<close>
  only, so an error is its message (\<open>err.Error()\<close>); a returned \<open>error\<close> is a
  \<open>string option\<close> with \<open>None\<close> for \<open>nil\<close>, and a pair \<open>(value, error)\<close> is a sum
  with \<open>Inl\<close> the message. The server is modelled one request at a time: the
  mutex of the in-memory store and the request context are not represented.
\<close>

subsection \<open>Data model\<close>

text \<open>\<open>time.Time\<close>, as an instant (nanoseconds since the epoch).\<close>

type_synonym time = int

record Task =
  ID :: string
  Text :: string
  Completed :: bool
  CreatedAt :: time

record TaskRequest =
  Text :: string
  Completed :: bool

text \<open>The pointer fields of \<open>TaskUpdateRequest\<close>: \<open>None\<close> is \<open>nil\<close> (field not supplied).\<close>

record TaskUpdateRequest =
  Text :: "string option"
  Completed :: "bool option"

text \<open>
  The \<open>Data\<close> field of \<open>SuccessResponse\<close> is an \<open>interface{}\<close>; these are the values
  the handlers put there.
\<close>

datatype json_value = JString string | JBool bool | JNull

datatype data =
    NoData
  | TaskData Task
  | TaskList "Task list"
  | Info "(string \<times> json_value) list"

record SuccessResponse =
  Message :: string
  Data :: data

text \<open>
  What a handler writes: \<open>http.Error(w, msg, code)\<close> is a plain-text body with a
  status; the success path writes a status and a JSON-encoded \<open>SuccessResponse\<close>.
\<close>

datatype response =
    http_Error string nat
  | Json nat SuccessResponse

fun statusCode :: "response \<Rightarrow> nat" where
  "statusCode (http_Error msg code) = code"
| "statusCode (Json code r) = code"

definition StatusOK :: nat where "StatusOK = 200"
definition StatusCreated :: nat where "StatusCreated = 201"
definition StatusBadRequest :: nat where "StatusBadRequest = 400"
definition StatusForbidden :: nat where "StatusForbidden = 403"
definition StatusNotFound :: nat where "StatusNotFound = 404"
definition StatusInternalServerError :: nat where "StatusInternalServerError = 500"

text \<open>
  The body of a request after \<open>json.NewDecoder(r.Body).Decode(&req)\<close>: the decoder
  failed, or it filled the request struct (absent fields keep their zero value).
\<close>

datatype 'a body = Unparsable | Parsed 'a

subsection \<open>The storage interface\<close>

text \<open>
  \<open>StorageBackend\<close>, over a backend state \<open>'s\<close>. The mutating operations return the
  new state. \<open>ListTasks\<close> takes the order in which the backend enumerates its keys
  (the order of Go's \<open>range\<close> over a map, or what the bucket iterator yields),
  which the code does not control.
\<close>

record 's StorageBackend =
  ListTasks :: "string list \<Rightarrow> 's \<Rightarrow> string + Task list"
  CreateTask :: "Task \<Rightarrow> 's \<Rightarrow> string option \<times> 's"
  UpdateTask :: "Task \<Rightarrow> 's \<Rightarrow> string option \<times> 's"
  DeleteTask :: "string \<Rightarrow> 's \<Rightarrow> string option \<times> 's"
  GetTask :: "string \<Rightarrow> 's \<Rightarrow> string + Task"

subsection \<open>In-memory storage\<close>

record InMemoryStorage =
  tasks :: "string \<rightharpoonup> Task"

definition NewInMemoryStorage :: InMemoryStorage where
  "NewInMemoryStorage = \<lparr>tasks = Map.empty\<rparr>"

text \<open>
  \<open>for _, task := range s.tasks\<close> visits every key once, in an order \<open>ks\<close> chosen
  by the runtime; \<open>range_order\<close> says that \<open>ks\<close> is such an order.
\<close>

definition range_order :: "InMemoryStorage \<Rightarrow> string list \<Rightarrow> bool" where
  "range_order s ks \<longleftrightarrow> distinct ks \<and> set ks = dom (tasks s)"

definition InMemoryStorage_ListTasks :: "string list \<Rightarrow> InMemoryStorage \<Rightarrow> string + Task list" where
  "InMemoryStorage_ListTasks ks s = Inr (List.map_filter (tasks s) ks)"

definition InMemoryStorage_CreateTask :: "Task \<Rightarrow> InMemoryStorage \<Rightarrow> string option \<times> InMemoryStorage" where
  "InMemoryStorage_CreateTask task s = (None, s\<lparr>tasks := (tasks s)(ID task \<mapsto> task)\<rparr>)"

definition InMemoryStorage_UpdateTask :: "Task \<Rightarrow> InMemoryStorage \<Rightarrow> string option \<times> InMemoryStorage" where
  "InMemoryStorage_UpdateTask task s =
     (case tasks s (ID task) of
        None \<Rightarrow> (Some ''task not found'', s)
      | Some _ \<Rightarrow> (None, s\<lparr>tasks := (tasks s)(ID task \<mapsto> task)\<rparr>))"

definition InMemoryStorage_DeleteTask :: "string \<Rightarrow> InMemoryStorage \<Rightarrow> string option \<times> InMemoryStorage" where
  "InMemoryStorage_DeleteTask taskID s =
     (case tasks s taskID of
        None \<Rightarrow> (Some ''task not found'', s)
      | Some _ \<Rightarrow> (None, s\<lparr>tasks := (tasks s)(taskID := None)\<rparr>))"

definition InMemoryStorage_GetTask :: "string \<Rightarrow> InMemoryStorage \<Rightarrow> string + Task" where
  "InMemoryStorage_GetTask taskID s =
     (case tasks s taskID of
        None \<Rightarrow> Inl ''task not found''
      | Some task \<Rightarrow> Inr task)"

definition InMemory :: "InMemoryStorage StorageBackend" where
  "InMemory =
     \<lparr>ListTasks = InMemoryStorage_ListTasks,
      CreateTask = InMemoryStorage_CreateTask,
      UpdateTask = InMemoryStorage_UpdateTask,
      DeleteTask = InMemoryStorage_DeleteTask,
      GetTask = InMemoryStorage_GetTask\<rparr>"

text \<open>
  The states the in-memory store can be in: it starts empty and changes only
  through its three mutating methods.
\<close>

inductive reachable :: "InMemoryStorage \<Rightarrow> bool" where
  new: "reachable NewInMemoryStorage"
| create: "reachable s \<Longrightarrow> reachable (snd (InMemoryStorage_CreateTask task s))"
| update: "reachable s \<Longrightarrow> reachable (snd (InMemoryStorage_UpdateTask task s))"
| delete: "reachable s \<Longrightarrow> reachable (snd (InMemoryStorage_DeleteTask taskID s))"

subsection \<open>Object storage\<close>

text \<open>
  The bucket lives in Google Cloud Storage, reached through the client library.
  The bytes of an object are represented by what
  \<open>json.NewDecoder(reader).Decode(&task)\<close> makes of them: a task, or the decoder's
  error.
\<close>

datatype object_content = TaskJSON Task | Undecodable string

fun json_Decode :: "object_content \<Rightarrow> string + Task" where
  "json_Decode (TaskJSON task) = Inr task"
| "json_Decode (Undecodable e) = Inl e"

text \<open>
  What the library does is not in the code. \<open>json_Marshal\<close> is \<open>json.Marshal\<close> on
  a task: an error, or the bytes (as above, by what they decode to; the library
  may alter a string that is not valid UTF-8, and it refuses a time whose year is
  outside 0..9999). The calls on the bucket can fail for reasons the code does
  not control (the network, access rights): for each call the code checks,
  \<open>Faults\<close> gives the error it returns when it fails that way, by object name for
  the calls on an object.
\<close>

record Faults =
  json_Marshal :: "Task \<Rightarrow> string + object_content"
  Write_err :: "string \<Rightarrow> string option"
  Close_err :: "string \<Rightarrow> string option"
  Attrs_err :: "string \<Rightarrow> string option"
  Delete_err :: "string \<Rightarrow> string option"
  NewReader_err :: "string \<Rightarrow> string option"
  Next_err :: "string option"

text \<open>
  \<open>GCSStorage\<close>: the bucket's name, and behind the client the objects of the
  bucket by name and the faults of the service.
\<close>

record GCSStorage =
  bucketName :: string
  objects :: "string \<rightharpoonup> object_content"
  faults :: Faults

text \<open>\<open>storage.ErrObjectNotExist\<close>.\<close>

definition ErrObjectNotExist :: string where
  "ErrObjectNotExist = ''storage: object doesn't exist''"

text \<open>\<open>Object(name).NewReader(ctx)\<close> and \<open>Object(name).Attrs(ctx)\<close>.\<close>

definition NewReader :: "GCSStorage \<Rightarrow> string \<Rightarrow> string + object_content" where
  "NewReader s name =
     (case NewReader_err (faults s) name of
        Some e \<Rightarrow> Inl e
      | None \<Rightarrow> (case objects s name of None \<Rightarrow> Inl ErrObjectNotExist | Some c \<Rightarrow> Inr c))"

definition Attrs :: "GCSStorage \<Rightarrow> string \<Rightarrow> string option" where
  "Attrs s name =
     (case Attrs_err (faults s) name of
        Some e \<Rightarrow> Some e
      | None \<Rightarrow> (case objects s name of None \<Rightarrow> Some ErrObjectNotExist | Some c \<Rightarrow> None))"

text \<open>\<open>Object(name).Delete(ctx)\<close>.\<close>

definition Delete :: "GCSStorage \<Rightarrow> string \<Rightarrow> string option \<times> GCSStorage" where
  "Delete s name =
     (case Delete_err (faults s) name of
        Some e \<Rightarrow> (Some e, s)
      | None \<Rightarrow>
          (case objects s name of
             None \<Rightarrow> (Some ErrObjectNotExist, s)
           | Some c \<Rightarrow> (None, s\<lparr>objects := (objects s)(name := None)\<rparr>)))"

text \<open>\<open>fmt.Sprintf("task-%s.json", taskID)\<close>.\<close>

definition objectName :: "string \<Rightarrow> string" where
  "objectName taskID = ''task-'' @ taskID @ ''.json''"

text \<open>
  The loop of \<open>ListTasks\<close> over the names the iterator yields: an object that does
  not open or does not decode is skipped.
\<close>

fun GCSStorage_ListTasks_loop :: "GCSStorage \<Rightarrow> string list \<Rightarrow> Task list \<Rightarrow> Task list" where
  "GCSStorage_ListTasks_loop s [] ts = ts"
| "GCSStorage_ListTasks_loop s (name # names) ts =
     (case NewReader s name of
        Inl err \<Rightarrow> GCSStorage_ListTasks_loop s names ts
      | Inr reader \<Rightarrow>
          (case json_Decode reader of
             Inl err \<Rightarrow> GCSStorage_ListTasks_loop s names ts
           | Inr task \<Rightarrow> GCSStorage_ListTasks_loop s names (ts @ [task])))"

text \<open>
  \<open>names\<close> is what the iterator yields for the prefix \<open>task-\<close>. When \<open>it.Next()\<close>
  fails, the tasks read so far are dropped and the error is returned.
\<close>

definition GCSStorage_ListTasks :: "string list \<Rightarrow> GCSStorage \<Rightarrow> string + Task list" where
  "GCSStorage_ListTasks names s =
     (case Next_err (faults s) of
        Some err \<Rightarrow> Inl (''error iterating objects: '' @ err)
      | None \<Rightarrow> Inr (GCSStorage_ListTasks_loop s names []))"

text \<open>
  The object written holds the bytes \<open>json.Marshal\<close> returned. It appears in the
  bucket when \<open>writer.Close()\<close> succeeds.
\<close>

definition GCSStorage_CreateTask :: "Task \<Rightarrow> GCSStorage \<Rightarrow> string option \<times> GCSStorage" where
  "GCSStorage_CreateTask task s =
     (case json_Marshal (faults s) task of
        Inl err \<Rightarrow> (Some (''error marshaling task: '' @ err), s)
      | Inr taskJSON \<Rightarrow>
          (case Write_err (faults s) (objectName (ID task)) of
             Some err \<Rightarrow> (Some (''error writing to GCS: '' @ err), s)
           | None \<Rightarrow>
               (case Close_err (faults s) (objectName (ID task)) of
                  Some err \<Rightarrow> (Some (''error closing writer: '' @ err), s)
                | None \<Rightarrow>
                    (None, s\<lparr>objects := (objects s)(objectName (ID task) \<mapsto> taskJSON)\<rparr>))))"

definition GCSStorage_UpdateTask :: "Task \<Rightarrow> GCSStorage \<Rightarrow> string option \<times> GCSStorage" where
  "GCSStorage_UpdateTask task s = GCSStorage_CreateTask task s"

definition GCSStorage_DeleteTask :: "string \<Rightarrow> GCSStorage \<Rightarrow> string option \<times> GCSStorage" where
  "GCSStorage_DeleteTask taskID s =
     (case Attrs s (objectName taskID) of
        Some err \<Rightarrow> (Some ''task not found'', s)
      | None \<Rightarrow>
          (case Delete s (objectName taskID) of
             (Some err, s') \<Rightarrow> (Some (''error deleting object: '' @ err), s')
           | (None, s') \<Rightarrow> (None, s')))"

definition GCSStorage_GetTask :: "string \<Rightarrow> GCSStorage \<Rightarrow> string + Task" where
  "GCSStorage_GetTask taskID s =
     (case NewReader s (objectName taskID) of
        Inl err \<Rightarrow> Inl ''task not found''
      | Inr reader \<Rightarrow>
          (case json_Decode reader of
             Inl err \<Rightarrow> Inl (''error decoding task: '' @ err)
           | Inr task \<Rightarrow> Inr task))"

definition GCS :: "GCSStorage StorageBackend" where
  "GCS =
     \<lparr>ListTasks = GCSStorage_ListTasks,
      CreateTask = GCSStorage_CreateTask,
      UpdateTask = GCSStorage_UpdateTask,
      DeleteTask = GCSStorage_DeleteTask,
      GetTask = GCSStorage_GetTask\<rparr>"

subsection \<open>Classifying errors\<close>

text \<open>
  \<open>path.Base\<close> of Go's standard library: \<open>"."\<close> for the empty string; otherwise
  trailing slashes are stripped and what follows the last remaining slash is
  returned, \<open>"/"\<close> if nothing is left.
\<close>

definition path_Base :: "string \<Rightarrow> string" where
  "path_Base p =
     (if p = [] then ''.''
      else
        let p1 = rev (dropWhile (\<lambda>c. c = CHR ''/'') (rev p));
            p2 = rev (takeWhile (\<lambda>c. c \<noteq> CHR ''/'') (rev p1))
        in if p2 = [] then ''/'' else p2)"

definition isPermissionError :: "string option \<Rightarrow> bool" where
  "isPermissionError err =
     (case err of
        None \<Rightarrow> False
      | Some msg \<Rightarrow>
          path_Base msg = ''403'' \<or> path_Base msg = ''forbidden'' \<or>
          path_Base msg = ''permission denied'')"

text \<open>
  The classes of the error taxonomy, as \<open>deleteTask\<close> tells them apart: the
  permission test first, then the comparison \<open>err.Error() == "task not found"\<close>,
  and everything else.
\<close>

datatype error_class = NotFound | PermissionDenied | Internal

definition error_class_of :: "string \<Rightarrow> error_class" where
  "error_class_of msg =
     (if isPermissionError (Some msg) then PermissionDenied
      else if msg = ''task not found'' then NotFound
      else Internal)"

subsection \<open>Handlers\<close>

text \<open>
  A handler takes the backend (the global \<open>storageBackend\<close>) and its state, and
  returns the response with the new state.
\<close>

definition getTasks :: "'s StorageBackend \<Rightarrow> string list \<Rightarrow> 's \<Rightarrow> response \<times> 's" where
  "getTasks b order s =
     (case ListTasks b order s of
        Inl err \<Rightarrow> (http_Error ''Internal server error'' StatusInternalServerError, s)
      | Inr ts \<Rightarrow>
          (Json StatusOK \<lparr>Message = ''Tasks retrieved successfully'', Data = TaskList ts\<rparr>, s))"

text \<open>\<open>taskID\<close> is \<open>uuid.New().String()\<close> and \<open>now\<close> is \<open>time.Now()\<close>.\<close>

definition createTask :: "'s StorageBackend \<Rightarrow> TaskRequest body \<Rightarrow> string \<Rightarrow> time \<Rightarrow> 's \<Rightarrow> response \<times> 's" where
  "createTask b reqBody taskID now s =
     (case reqBody of
        Unparsable \<Rightarrow> (http_Error ''Invalid request body'' StatusBadRequest, s)
      | Parsed req \<Rightarrow>
          if TaskRequest.Text req = '''' then
            (http_Error ''Task text is required'' StatusBadRequest, s)
          else
            let task = \<lparr>ID = taskID, Text = TaskRequest.Text req,
                        Completed = TaskRequest.Completed req, CreatedAt = now\<rparr>
            in (case CreateTask b task s of
                  (Some err, s') \<Rightarrow>
                    if isPermissionError (Some err) then
                      (http_Error ''Forbidden: Insufficient permissions to access storage''
                         StatusForbidden, s')
                    else (http_Error ''Internal server error'' StatusInternalServerError, s')
                | (None, s') \<Rightarrow>
                    (Json StatusCreated
                       \<lparr>Message = ''Task created successfully'', Data = TaskData task\<rparr>, s')))"

text \<open>The two assignments ``update fields if provided'' of \<open>updateTask\<close>.\<close>

definition updateFields :: "TaskUpdateRequest \<Rightarrow> Task \<Rightarrow> Task" where
  "updateFields req existingTask =
     (let t1 = (case TaskUpdateRequest.Text req of
                  None \<Rightarrow> existingTask
                | Some text \<Rightarrow> existingTask\<lparr>Task.Text := text\<rparr>)
      in (case TaskUpdateRequest.Completed req of
            None \<Rightarrow> t1
          | Some completed \<Rightarrow> t1\<lparr>Task.Completed := completed\<rparr>))"

definition updateTask :: "'s StorageBackend \<Rightarrow> string \<Rightarrow> TaskUpdateRequest body \<Rightarrow> 's \<Rightarrow> response \<times> 's" where
  "updateTask b taskID reqBody s =
     (case reqBody of
        Unparsable \<Rightarrow> (http_Error ''Invalid request body'' StatusBadRequest, s)
      | Parsed req \<Rightarrow>
          (case GetTask b taskID s of
             Inl err \<Rightarrow>
               if isPermissionError (Some err) then
                 (http_Error ''Forbidden: Insufficient permissions to access storage''
                    StatusForbidden, s)
               else (http_Error ''Task not found'' StatusNotFound, s)
           | Inr existingTask \<Rightarrow>
               let task = updateFields req existingTask
               in (case UpdateTask b task s of
                     (Some err, s') \<Rightarrow>
                       if isPermissionError (Some err) then
                         (http_Error ''Forbidden: Insufficient permissions to access storage''
                            StatusForbidden, s')
                       else (http_Error ''Internal server error'' StatusInternalServerError, s')
                   | (None, s') \<Rightarrow>
                       (Json StatusOK
                          \<lparr>Message = ''Task updated successfully'', Data = TaskData task\<rparr>, s'))))"

definition deleteTask :: "'s StorageBackend \<Rightarrow> string \<Rightarrow> 's \<Rightarrow> response \<times> 's" where
  "deleteTask b taskID s =
     (case DeleteTask b taskID s of
        (Some err, s') \<Rightarrow>
          if isPermissionError (Some err) then
            (http_Error ''Forbidden: Insufficient permissions to access storage''
               StatusForbidden, s')
          else if err = ''task not found'' then
            (http_Error ''Task not found'' StatusNotFound, s')
          else (http_Error ''Internal server error'' StatusInternalServerError, s')
      | (None, s') \<Rightarrow>
          (Json StatusOK \<lparr>Message = ''Task deleted successfully'', Data = NoData\<rparr>, s'))"

text \<open>
  \<open>healthCheck\<close> and \<open>getBucketInfo\<close> read the globals \<open>useLocalStorage\<close> and
  \<open>bucketName\<close>; \<open>timestamp\<close> is \<open>time.Now().Format(time.RFC3339)\<close>.
\<close>

definition healthCheck :: "bool \<Rightarrow> string \<Rightarrow> string \<Rightarrow> response" where
  "healthCheck useLocalStorage bucket timestamp =
     Json StatusOK
       \<lparr>Message = ''Backend is healthy'',
        Data = Info (if useLocalStorage
                     then [(''timestamp'', JString timestamp), (''storage'', JString ''in-memory'')]
                     else [(''timestamp'', JString timestamp),
                           (''storage'', JString ''google-cloud-storage''),
                           (''bucket'', JString bucket)])\<rparr>"

definition getBucketInfo :: "bool \<Rightarrow> string \<Rightarrow> response" where
  "getBucketInfo useLocalStorage bucket =
     Json StatusOK
       \<lparr>Message = ''Bucket information retrieved successfully'',
        Data = Info (if useLocalStorage
                     then [(''storage'', JString ''in-memory''), (''bucket'', JNull),
                           (''gcsConsoleUrl'', JNull), (''isLocal'', JBool True)]
                     else [(''storage'', JString ''google-cloud-storage''),
                           (''bucket'', JString bucket),
                           (''gcsConsoleUrl'',
                              JString (''https://console.cloud.google.com/storage/browser/'' @ bucket)),
                           (''isLocal'', JBool False)])\<rparr>"

subsection \<open>Example states\<close>

text \<open>
  A task, and a service on which no call fails. Its \<open>json_Marshal\<close> is what
  \<open>json.Marshal\<close> does on the tasks of these examples, whose strings are ASCII and
  whose time is in 1970: the bytes decode to the task marshalled.
\<close>

definition milk :: Task where
  "milk = \<lparr>ID = ''x'', Text = ''buy milk'', Completed = False, CreatedAt = 0\<rparr>"

definition no_faults :: Faults where
  "no_faults =
     \<lparr>json_Marshal = (\<lambda>task. Inr (TaskJSON task)),
      Write_err = (\<lambda>_. None), Close_err = (\<lambda>_. None),
      Attrs_err = (\<lambda>_. None), Delete_err = (\<lambda>_. None), NewReader_err = (\<lambda>_. None),
      Next_err = None\<rparr>"

text \<open>
  An empty bucket, a bucket whose object for id \<open>x\<close> is not JSON, a bucket that
  holds the task, and one that holds it while the service refuses to finish a
  write.
\<close>

definition milk_bucket :: GCSStorage where
  "milk_bucket =
     \<lparr>bucketName = ''tasks'',
      objects = [''task-x.json'' \<mapsto> TaskJSON milk],
      faults = no_faults\<rparr>"

definition refusing_bucket :: GCSStorage where
  "refusing_bucket =
     \<lparr>bucketName = ''tasks'',
      objects = [''task-x.json'' \<mapsto> TaskJSON milk],
      faults = no_faults\<lparr>Close_err := (\<lambda>_. Some ''connection reset'')\<rparr>\<rparr>"

definition empty_bucket :: GCSStorage where
  "empty_bucket = \<lparr>bucketName = ''tasks'', objects = Map.empty, faults = no_faults\<rparr>"

definition corrupt_bucket :: GCSStorage where
  "corrupt_bucket =
     \<lparr>bucketName = ''tasks'',
      objects = [''task-x.json'' \<mapsto> Undecodable ''unexpected EOF''],
      faults = no_faults\<rparr>"

text \<open>
  A bucket that holds a well-formed task under id \<open>x\<close> while the service refuses
  to open objects.
\<close>

definition denied_bucket :: GCSStorage where
  "denied_bucket =
     \<lparr>bucketName = ''tasks'',
      objects = [''task-x.json'' \<mapsto> TaskJSON milk],
      faults = no_faults\<lparr>NewReader_err := (\<lambda>_. Some ''forbidden'')\<rparr>\<rparr>"

section \<open>Properties\<close>

subsection \<open>Auxiliary facts\<close>

lemmas status_defs =
  StatusOK_def StatusCreated_def StatusBadRequest_def StatusForbidden_def
  StatusNotFound_def StatusInternalServerError_def

lemmas InMemory_defs =
  InMemory_def InMemoryStorage_ListTasks_def InMemoryStorage_CreateTask_def
  InMemoryStorage_UpdateTask_def InMemoryStorage_DeleteTask_def InMemoryStorage_GetTask_def

lemmas GCS_defs =
  GCS_def GCSStorage_ListTasks_def GCSStorage_CreateTask_def GCSStorage_UpdateTask_def
  GCSStorage_DeleteTask_def GCSStorage_GetTask_def NewReader_def Attrs_def Delete_def

lemma path_Base_task_not_found: "path_Base ''task not found'' = ''task not found''"
  by (simp add: path_Base_def)

lemma isPermissionError_task_not_found: "isPermissionError (Some ''task not found'') = False"
  by (simp add: isPermissionError_def path_Base_task_not_found)

lemma error_class_of_task_not_found: "error_class_of ''task not found'' = NotFound"
  by (simp add: error_class_of_def isPermissionError_task_not_found)

lemma error_class_of_decoding: "error_class_of (''error decoding task: '' @ e) \<noteq> NotFound"
  by (simp add: error_class_of_def)

text \<open>Every reachable in-memory state stores a task under its own id.\<close>

lemma reachable_keyed: "reachable s \<Longrightarrow> tasks s k = Some t \<Longrightarrow> ID t = k"
proof (induction arbitrary: k t rule: reachable.induct)
  case new
  then show ?case by (simp add: NewInMemoryStorage_def)
next
  case (create s task)
  then show ?case by (auto simp: InMemoryStorage_CreateTask_def split: if_splits)
next
  case (update s task)
  then show ?case
    by (auto simp: InMemoryStorage_UpdateTask_def split: if_splits option.splits)
next
  case (delete s taskID)
  then show ?case
    by (auto simp: InMemoryStorage_DeleteTask_def split: if_splits option.splits)
qed

lemma set_map_filter: "set (List.map_filter f xs) = {y. \<exists>x \<in> set xs. f x = Some y}"
  by (induction xs) (auto split: option.splits)

lemma updateFields_idem: "updateFields req (updateFields req t) = updateFields req t"
  by (simp add: updateFields_def split: option.splits)

lemma updateFields_ID: "ID (updateFields req t) = ID t"
  by (simp add: updateFields_def split: option.splits)

lemma updateFields_CreatedAt: "CreatedAt (updateFields req t) = CreatedAt t"
  by (simp add: updateFields_def split: option.splits)

lemma updateFields_Text:
  "Task.Text (updateFields req t) =
     (case TaskUpdateRequest.Text req of None \<Rightarrow> Task.Text t | Some text \<Rightarrow> text)"
  by (simp add: updateFields_def split: option.splits)

lemma updateFields_Completed:
  "Task.Completed (updateFields req t) =
     (case TaskUpdateRequest.Completed req of None \<Rightarrow> Task.Completed t | Some c \<Rightarrow> c)"
  by (simp add: updateFields_def split: option.splits)

text \<open>The in-memory update of an absent id fails with ``task not found''.\<close>

lemma InMemoryStorage_UpdateTask_absent:
  "tasks s (ID task) = None \<Longrightarrow>
     InMemoryStorage_UpdateTask task s = (Some ''task not found'', s)"
  by (simp add: InMemoryStorage_UpdateTask_def)

lemma updateTask_InMemory_present:
  assumes "reachable s" and "tasks s taskID = Some t"
  shows "updateTask InMemory taskID (Parsed req) s =
           (Json StatusOK
              \<lparr>Message = ''Task updated successfully'', Data = TaskData (updateFields req t)\<rparr>,
            s\<lparr>tasks := (tasks s)(taskID \<mapsto> updateFields req t)\<rparr>)"
proof -
  have "ID t = taskID" using assms by (rule reachable_keyed)
  then show ?thesis
    using assms(2) by (simp add: updateTask_def InMemory_defs updateFields_ID Let_def)
qed

text \<open>
  With the in-memory backend, an update with a parsable body answers 404 exactly
  when the id is absent.
\<close>

lemma updateTask_InMemory_404_iff:
  assumes "reachable s"
  shows "statusCode (fst (updateTask InMemory taskID (Parsed req) s)) = 404
           \<longleftrightarrow> tasks s taskID = None"
proof (cases "tasks s taskID")
  case None
  then show ?thesis
    by (simp add: updateTask_def InMemory_defs isPermissionError_task_not_found status_defs)
next
  case (Some t)
  then show ?thesis
    using updateTask_InMemory_present [OF assms Some, of req] by (simp add: status_defs)
qed

text \<open>
  \<open>deleteTask\<close> answers 500 for an error of class Internal, whatever the backend.
\<close>

lemma deleteTask_Internal_500:
  assumes "DeleteTask b taskID s = (Some err, s')" and "error_class_of err = Internal"
  shows "statusCode (fst (deleteTask b taskID s)) = 500"
  using assms
  by (auto simp: deleteTask_def error_class_of_def status_defs split: if_splits)

text \<open>
  \<open>GCSStorage.GetTask\<close> replaces whatever error \<open>NewReader\<close> returns by ``task not
  found'': when the service refuses to open a stored task with an error that
  \<open>isPermissionError\<close> accepts, \<open>updateTask\<close> still answers 404.
\<close>

lemma updateTask_read_denied_404:
  "objects denied_bucket (objectName ''x'') = Some (TaskJSON milk) \<and>
   NewReader denied_bucket (objectName ''x'') = Inl ''forbidden'' \<and>
   isPermissionError (Some ''forbidden'') \<and>
   GetTask GCS ''x'' denied_bucket = Inl ''task not found'' \<and>
   updateTask GCS ''x''
     (Parsed \<lparr>TaskUpdateRequest.Text = None, TaskUpdateRequest.Completed = Some True\<rparr>)
     denied_bucket
   = (http_Error ''Task not found'' 404, denied_bucket)"
  by (simp add: updateTask_def GCS_defs denied_bucket_def no_faults_def objectName_def
      isPermissionError_def path_Base_def status_defs)

text \<open>
  Once \<open>GetTask\<close> has found a task, \<open>updateTask\<close> hands the patched task to the
  backend's \<open>UpdateTask\<close> and answers by its result, whatever the backend.
\<close>

lemma updateTask_found:
  assumes "GetTask b taskID s = Inr t"
  shows "updateTask b taskID (Parsed req) s =
     (case UpdateTask b (updateFields req t) s of
        (Some err, s') \<Rightarrow>
          if isPermissionError (Some err) then
            (http_Error ''Forbidden: Insufficient permissions to access storage''
               StatusForbidden, s')
          else (http_Error ''Internal server error'' StatusInternalServerError, s')
      | (None, s') \<Rightarrow>
          (Json StatusOK
             \<lparr>Message = ''Task updated successfully'', Data = TaskData (updateFields req t)\<rparr>,
           s'))"
  using assms by (simp add: updateTask_def Let_def)

text \<open>
  The object-storage update writes what \<open>json.Marshal\<close> returned when the two
  writer calls succeed, and leaves the bucket as it was when it fails.
\<close>

lemma GCSStorage_UpdateTask_written:
  assumes "json_Marshal (faults g) task = Inr content"
    and "Write_err (faults g) (objectName (ID task)) = None"
    and "Close_err (faults g) (objectName (ID task)) = None"
  shows "GCSStorage_UpdateTask task g =
           (None, g\<lparr>objects := (objects g)(objectName (ID task) \<mapsto> content)\<rparr>)"
  using assms by (simp add: GCSStorage_UpdateTask_def GCSStorage_CreateTask_def)

lemma GCSStorage_UpdateTask_failed:
  "fst (GCSStorage_UpdateTask task g) \<noteq> None \<Longrightarrow> snd (GCSStorage_UpdateTask task g) = g"
  by (simp add: GCSStorage_UpdateTask_def GCSStorage_CreateTask_def
      split: sum.splits option.splits)

text \<open>An update that is not answered 200 leaves the state of the backend as it was.\<close>

lemma updateTask_InMemory_not_OK:
  "statusCode (fst (updateTask InMemory taskID reqBody m)) \<noteq> 200
     \<Longrightarrow> snd (updateTask InMemory taskID reqBody m) = m"
  by (simp add: updateTask_def InMemory_defs Let_def status_defs
      split: body.splits option.splits if_splits)

lemma updateTask_GCS_not_OK:
  "statusCode (fst (updateTask GCS taskID reqBody g)) \<noteq> 200
     \<Longrightarrow> snd (updateTask GCS taskID reqBody g) = g"
proof (cases reqBody)
  case Unparsable
  then show ?thesis by (simp add: updateTask_def)
next
  case (Parsed req)
  assume st: "statusCode (fst (updateTask GCS taskID reqBody g)) \<noteq> 200"
  show ?thesis
  proof (cases "GetTask GCS taskID g")
    case (Inl err)
    then show ?thesis using Parsed by (simp add: updateTask_def)
  next
    case (Inr t)
    have "fst (GCSStorage_UpdateTask (updateFields req t) g) \<noteq> None"
    proof
      assume "fst (GCSStorage_UpdateTask (updateFields req t) g) = None"
      then have "statusCode (fst (updateTask GCS taskID reqBody g)) = 200"
        using Parsed updateTask_found [OF Inr, of req]
        by (simp add: GCS_def status_defs split: prod.splits)
      then show False using st by simp
    qed
    then have "snd (GCSStorage_UpdateTask (updateFields req t) g) = g"
      by (rule GCSStorage_UpdateTask_failed)
    then show ?thesis
      using Parsed updateTask_found [OF Inr, of req]
      by (simp add: GCS_def split: prod.splits option.splits if_splits)
  qed
qed

text \<open>
  On the bucket that refuses to finish a write, an update of the stored task is
  answered 500 and the bucket is unchanged.
\<close>

lemma updateTask_write_refused_500:
  "GetTask GCS ''x'' refusing_bucket = Inr milk \<and>
   updateTask GCS ''x''
     (Parsed \<lparr>TaskUpdateRequest.Text = Some '''', TaskUpdateRequest.Completed = None\<rparr>)
     refusing_bucket
   = (http_Error ''Internal server error'' 500, refusing_bucket)"
  by (simp add: updateTask_def GCS_defs refusing_bucket_def no_faults_def objectName_def
      updateFields_def milk_def isPermissionError_def path_Base_def status_defs Let_def)

subsection \<open>Claims\<close>

text \<open>
  C1. The specification asks that, in both storage variants, update of an absent
  id fail with a NotFound-class error. The in-memory variant does so. The
  object-storage variant's \<open>UpdateTask\<close> is \<open>CreateTask\<close>: on the empty bucket,
  where \<open>GetTask\<close> reports ``task not found'', it returns no error and writes the
  object.
\<close>

theorem GCSStorage_UpdateTask_absent_id:
  "objects empty_bucket (objectName (ID milk)) = None \<and>
   GCSStorage_GetTask (ID milk) empty_bucket = Inl ''task not found'' \<and>
   fst (GCSStorage_UpdateTask milk empty_bucket) = None \<and>
   objects (snd (GCSStorage_UpdateTask milk empty_bucket)) (objectName (ID milk))
     = Some (TaskJSON milk) \<and>
   fst (InMemoryStorage_UpdateTask milk NewInMemoryStorage) = Some ''task not found''"
  by (simp add: GCS_defs empty_bucket_def no_faults_def milk_def objectName_def
      InMemoryStorage_UpdateTask_def NewInMemoryStorage_def)

text \<open>
  C2. The specification puts both failures of the object-storage get in the
  NotFound class. That fails where the stored JSON does not decode: the error of
  \<open>GetTask\<close> is then ``error decoding task: ...'', which is not of class NotFound.
\<close>

theorem GCSStorage_GetTask_decode_counterexample:
  "objects corrupt_bucket (objectName ''x'') = Some (Undecodable ''unexpected EOF'') \<and>
   GCSStorage_GetTask ''x'' corrupt_bucket = Inl ''error decoding task: unexpected EOF'' \<and>
   error_class_of ''error decoding task: unexpected EOF'' \<noteq> NotFound"
  by (simp add: GCS_defs corrupt_bucket_def no_faults_def objectName_def error_class_of_def)

text \<open>
  C2, amended. For the object-storage variant, get on a task id fails with the
  NotFound-class error ``task not found'' when the object does not exist; when
  the object is read but its JSON fails to decode, get fails with the error
  ``error decoding task: '' followed by the decoder's error, which is not of class
  NotFound.
\<close>

theorem GCSStorage_GetTask_errors:
  "(objects s (objectName taskID) = None \<longrightarrow>
      GCSStorage_GetTask taskID s = Inl ''task not found'' \<and>
      error_class_of ''task not found'' = NotFound) \<and>
   (NewReader_err (faults s) (objectName taskID) = None \<and>
    objects s (objectName taskID) = Some (Undecodable e) \<longrightarrow>
      GCSStorage_GetTask taskID s = Inl (''error decoding task: '' @ e) \<and>
      error_class_of (''error decoding task: '' @ e) \<noteq> NotFound)"
  using error_class_of_decoding [of e]
  by (simp add: GCS_defs error_class_of_task_not_found split: option.splits)

theorem GCSStorage_GetTask_errors_witness:
  "objects empty_bucket (objectName ''x'') = None \<and>
   GCSStorage_GetTask ''x'' empty_bucket = Inl ''task not found'' \<and>
   NewReader_err (faults corrupt_bucket) (objectName ''x'') = None \<and>
   objects corrupt_bucket (objectName ''x'') = Some (Undecodable ''unexpected EOF'') \<and>
   GCSStorage_GetTask ''x'' corrupt_bucket = Inl (''error decoding task: '' @ ''unexpected EOF'')"
  using GCSStorage_GetTask_errors [of empty_bucket "''x''"]
    GCSStorage_GetTask_errors [of corrupt_bucket "''x''" "''unexpected EOF''"]
  by (simp add: empty_bucket_def corrupt_bucket_def no_faults_def objectName_def)

text \<open>
  C3. The specification asks that an update answer 404 exactly when the id is
  absent, and that an Internal-class error of the backend never yield 404. In
  the bucket whose object for id \<open>x\<close> does not decode, the id is present,
  \<open>GetTask\<close> fails with an error of class Internal, and \<open>updateTask\<close> answers 404.
\<close>

theorem updateTask_decode_error_404:
  "objects corrupt_bucket (objectName ''x'') \<noteq> None \<and>
   GetTask GCS ''x'' corrupt_bucket = Inl ''error decoding task: unexpected EOF'' \<and>
   error_class_of ''error decoding task: unexpected EOF'' = Internal \<and>
   updateTask GCS ''x''
     (Parsed \<lparr>TaskUpdateRequest.Text = None, TaskUpdateRequest.Completed = Some True\<rparr>)
     corrupt_bucket
   = (http_Error ''Task not found'' 404, corrupt_bucket)"
  by (simp add: updateTask_def GCS_defs corrupt_bucket_def no_faults_def objectName_def
      error_class_of_def isPermissionError_def path_Base_def status_defs)

text \<open>
  C4. A create request whose text is empty is answered 400 with the state of the
  backend unchanged, whatever the backend is: no storage operation has a part in
  the result.
\<close>

theorem createTask_empty_text:
  "createTask b (Parsed \<lparr>TaskRequest.Text = '''', TaskRequest.Completed = c\<rparr>) taskID now s
     = (http_Error ''Task text is required'' 400, s)"
  by (simp add: createTask_def status_defs)

text \<open>
  C5. Creating a task in the in-memory store succeeds; getting its id then returns
  the same task (the same record, so equal in id, text, completed and createdAt),
  and the task is in the list that \<open>ListTasks\<close> returns, in whatever order the map
  is ranged over.
\<close>

theorem InMemoryStorage_create_get_list:
  "fst (InMemoryStorage_CreateTask t s) = None \<and>
   InMemoryStorage_GetTask (ID t) (snd (InMemoryStorage_CreateTask t s)) = Inr t \<and>
   (range_order (snd (InMemoryStorage_CreateTask t s)) ks \<longrightarrow>
      (\<exists>ts. InMemoryStorage_ListTasks ks (snd (InMemoryStorage_CreateTask t s)) = Inr ts \<and>
            t \<in> set ts))"
  by (auto simp: InMemory_defs range_order_def set_map_filter)

theorem InMemoryStorage_create_get_list_witness:
  "range_order (snd (InMemoryStorage_CreateTask milk NewInMemoryStorage)) [''x''] \<and>
   InMemoryStorage_GetTask ''x'' (snd (InMemoryStorage_CreateTask milk NewInMemoryStorage))
     = Inr milk \<and>
   InMemoryStorage_ListTasks [''x''] (snd (InMemoryStorage_CreateTask milk NewInMemoryStorage))
     = Inr [milk]"
  using InMemoryStorage_create_get_list [of milk NewInMemoryStorage "[''x'']"]
  by (simp add: InMemory_defs range_order_def NewInMemoryStorage_def milk_def)

text \<open>
  C6. In a reachable in-memory state that holds the id, delete succeeds, and in
  the state it leaves, get, update and delete of that id fail with ``task not
  found'' (class NotFound; the handlers answer 404), and no task of the list has
  that id.
\<close>

theorem InMemoryStorage_after_delete:
  assumes "reachable s" and "tasks s taskID = Some t"
    and "s' = snd (InMemoryStorage_DeleteTask taskID s)"
  shows "fst (InMemoryStorage_DeleteTask taskID s) = None \<and>
    InMemoryStorage_GetTask taskID s' = Inl ''task not found'' \<and>
    (ID task = taskID \<longrightarrow>
       InMemoryStorage_UpdateTask task s' = (Some ''task not found'', s')) \<and>
    InMemoryStorage_DeleteTask taskID s' = (Some ''task not found'', s') \<and>
    error_class_of ''task not found'' = NotFound \<and>
    fst (updateTask InMemory taskID (Parsed req) s') = http_Error ''Task not found'' 404 \<and>
    fst (deleteTask InMemory taskID s') = http_Error ''Task not found'' 404 \<and>
    (range_order s' ks \<longrightarrow>
       (\<exists>ts. InMemoryStorage_ListTasks ks s' = Inr ts \<and> taskID \<notin> ID ` set ts))"
proof -
  have s': "s' = s\<lparr>tasks := (tasks s)(taskID := None)\<rparr>"
    using assms(2,3) by (simp add: InMemoryStorage_DeleteTask_def)
  have gone: "tasks s' taskID = None"
    by (simp add: s')
  have "reachable s'"
    unfolding assms(3) using assms(1) by (rule reachable.delete)
  then have keyed: "\<And>k u. tasks s' k = Some u \<Longrightarrow> ID u = k"
    by (rule reachable_keyed)
  have del: "fst (InMemoryStorage_DeleteTask taskID s) = None"
    using assms(2) by (simp add: InMemoryStorage_DeleteTask_def)
  have get: "InMemoryStorage_GetTask taskID s' = Inl ''task not found''"
    using gone by (simp add: InMemoryStorage_GetTask_def)
  have upd: "ID task = taskID \<longrightarrow>
      InMemoryStorage_UpdateTask task s' = (Some ''task not found'', s')"
    using gone by (simp add: InMemoryStorage_UpdateTask_absent)
  have del2: "InMemoryStorage_DeleteTask taskID s' = (Some ''task not found'', s')"
    using gone by (simp add: InMemoryStorage_DeleteTask_def)
  have h_upd: "fst (updateTask InMemory taskID (Parsed req) s') = http_Error ''Task not found'' 404"
    using get
    by (simp add: updateTask_def InMemory_def isPermissionError_task_not_found status_defs)
  have h_del: "fst (deleteTask InMemory taskID s') = http_Error ''Task not found'' 404"
    using del2
    by (simp add: deleteTask_def InMemory_def isPermissionError_task_not_found status_defs)
  have lst: "range_order s' ks \<longrightarrow>
      (\<exists>ts. InMemoryStorage_ListTasks ks s' = Inr ts \<and> taskID \<notin> ID ` set ts)"
  proof -
    have "taskID \<notin> ID ` set (List.map_filter (tasks s') ks)"
    proof
      assume "taskID \<in> ID ` set (List.map_filter (tasks s') ks)"
      then obtain u k where "tasks s' k = Some u" and "ID u = taskID"
        by (auto simp: set_map_filter)
      then have "tasks s' taskID = Some u"
        using keyed by auto
      then show False using gone by simp
    qed
    then show ?thesis by (simp add: InMemoryStorage_ListTasks_def)
  qed
  from del get upd del2 error_class_of_task_not_found h_upd h_del lst
  show ?thesis by blast
qed

theorem InMemoryStorage_after_delete_witness:
  "reachable (snd (InMemoryStorage_CreateTask milk NewInMemoryStorage)) \<and>
   tasks (snd (InMemoryStorage_CreateTask milk NewInMemoryStorage)) ''x'' = Some milk \<and>
   range_order NewInMemoryStorage [] \<and>
   snd (InMemoryStorage_DeleteTask ''x'' (snd (InMemoryStorage_CreateTask milk NewInMemoryStorage)))
     = NewInMemoryStorage \<and>
   InMemoryStorage_GetTask ''x'' NewInMemoryStorage = Inl ''task not found'' \<and>
   InMemoryStorage_UpdateTask milk NewInMemoryStorage = (Some ''task not found'', NewInMemoryStorage) \<and>
   InMemoryStorage_DeleteTask ''x'' NewInMemoryStorage = (Some ''task not found'', NewInMemoryStorage) \<and>
   InMemoryStorage_ListTasks [] NewInMemoryStorage = Inr []"
proof -
  let ?s = "snd (InMemoryStorage_CreateTask milk NewInMemoryStorage)"
  have r: "reachable ?s"
    by (rule reachable.create [OF reachable.new])
  have p: "tasks ?s ''x'' = Some milk"
    by (simp add: InMemoryStorage_CreateTask_def milk_def)
  have d: "NewInMemoryStorage = snd (InMemoryStorage_DeleteTask ''x'' ?s)"
    by (simp add: InMemoryStorage_DeleteTask_def InMemoryStorage_CreateTask_def
        NewInMemoryStorage_def milk_def)
  have o: "range_order NewInMemoryStorage []"
    by (simp add: range_order_def NewInMemoryStorage_def)
  have i: "ID milk = ''x''"
    by (simp add: milk_def)
  show ?thesis
    using InMemoryStorage_after_delete [OF r p d, of milk _ "[]"] r p d o i
    by (auto simp: InMemoryStorage_ListTasks_def)
qed

text \<open>
  C7. Through \<open>updateTask\<close> on the in-memory store, a second application of the
  same request (the same id and the same body) gives the response and the state
  that the first one gave: the state after two applications is the state after
  one.
\<close>

theorem updateTask_InMemory_idempotent:
  "updateTask InMemory taskID reqBody (snd (updateTask InMemory taskID reqBody s))
     = updateTask InMemory taskID reqBody s"
proof (cases reqBody)
  case Unparsable
  then show ?thesis by (simp add: updateTask_def)
next
  case (Parsed req)
  show ?thesis
  proof (cases "tasks s taskID")
    case None
    then show ?thesis
      using Parsed by (simp add: updateTask_def InMemory_defs)
  next
    case (Some t)
    show ?thesis
    proof (cases "tasks s (ID t)")
      case None
      then show ?thesis
        using Parsed Some by (simp add: updateTask_def InMemory_defs updateFields_ID Let_def)
    next
      case (Some u)
      then show ?thesis
        using Parsed \<open>tasks s taskID = Some t\<close>
        by (simp add: updateTask_def InMemory_defs updateFields_ID updateFields_idem Let_def)
    qed
  qed
qed

text \<open>
  C8. For every stored task \<open>t\<close> and every update request, the resulting task has
  the id and createdAt of \<open>t\<close>, the text of \<open>t\<close> when the request supplies no text
  and the completed flag of \<open>t\<close> when it supplies none; a supplied field has the
  supplied value. With any backend, that task is the one handed to the backend's
  update and the one in the 200 answer. The in-memory backend then stores it
  under the id and changes no other entry; the object-storage backend, when
  the marshalling and the two writer calls succeed, writes its JSON to the
  task's object and changes no other object. An update that is not answered 200
  changes nothing.
\<close>

theorem updateTask_frame:
  "ID (updateFields req t) = ID t \<and>
   CreatedAt (updateFields req t) = CreatedAt t \<and>
   (TaskUpdateRequest.Text req = None \<longrightarrow> Task.Text (updateFields req t) = Task.Text t) \<and>
   (TaskUpdateRequest.Completed req = None \<longrightarrow>
      Task.Completed (updateFields req t) = Task.Completed t) \<and>
   (\<forall>text. TaskUpdateRequest.Text req = Some text \<longrightarrow> Task.Text (updateFields req t) = text) \<and>
   (\<forall>c. TaskUpdateRequest.Completed req = Some c \<longrightarrow> Task.Completed (updateFields req t) = c) \<and>
   (GetTask b taskID s = Inr t \<longrightarrow>
      snd (updateTask b taskID (Parsed req) s) = snd (UpdateTask b (updateFields req t) s) \<and>
      (fst (UpdateTask b (updateFields req t) s) = None \<longrightarrow>
         fst (updateTask b taskID (Parsed req) s) =
           Json 200 \<lparr>Message = ''Task updated successfully'',
                      Data = TaskData (updateFields req t)\<rparr>) \<and>
      (fst (UpdateTask b (updateFields req t) s) \<noteq> None \<longrightarrow>
         statusCode (fst (updateTask b taskID (Parsed req) s)) \<in> {403, 500})) \<and>
   (reachable m \<and> tasks m taskID = Some t \<longrightarrow>
      updateTask InMemory taskID (Parsed req) m =
        (Json 200 \<lparr>Message = ''Task updated successfully'',
                    Data = TaskData (updateFields req t)\<rparr>,
         m\<lparr>tasks := (tasks m)(taskID \<mapsto> updateFields req t)\<rparr>)) \<and>
   (GetTask GCS taskID g = Inr t \<and>
    json_Marshal (faults g) (updateFields req t) = Inr content \<and>
    Write_err (faults g) (objectName (ID t)) = None \<and>
    Close_err (faults g) (objectName (ID t)) = None \<longrightarrow>
      updateTask GCS taskID (Parsed req) g =
        (Json 200 \<lparr>Message = ''Task updated successfully'',
                    Data = TaskData (updateFields req t)\<rparr>,
         g\<lparr>objects := (objects g)(objectName (ID t) \<mapsto> content)\<rparr>)) \<and>
   (statusCode (fst (updateTask InMemory taskID reqBody m)) \<noteq> 200 \<longrightarrow>
      snd (updateTask InMemory taskID reqBody m) = m) \<and>
   (statusCode (fst (updateTask GCS taskID reqBody g)) \<noteq> 200 \<longrightarrow>
      snd (updateTask GCS taskID reqBody g) = g)"
proof -
  have fields: "ID (updateFields req t) = ID t"
    "CreatedAt (updateFields req t) = CreatedAt t"
    "TaskUpdateRequest.Text req = None \<longrightarrow> Task.Text (updateFields req t) = Task.Text t"
    "TaskUpdateRequest.Completed req = None \<longrightarrow>
       Task.Completed (updateFields req t) = Task.Completed t"
    "\<forall>text. TaskUpdateRequest.Text req = Some text \<longrightarrow> Task.Text (updateFields req t) = text"
    "\<forall>c. TaskUpdateRequest.Completed req = Some c \<longrightarrow> Task.Completed (updateFields req t) = c"
    by (simp_all add: updateFields_ID updateFields_CreatedAt updateFields_Text
        updateFields_Completed)
  have generic: "GetTask b taskID s = Inr t \<longrightarrow>
      snd (updateTask b taskID (Parsed req) s) = snd (UpdateTask b (updateFields req t) s) \<and>
      (fst (UpdateTask b (updateFields req t) s) = None \<longrightarrow>
         fst (updateTask b taskID (Parsed req) s) =
           Json 200 \<lparr>Message = ''Task updated successfully'',
                      Data = TaskData (updateFields req t)\<rparr>) \<and>
      (fst (UpdateTask b (updateFields req t) s) \<noteq> None \<longrightarrow>
         statusCode (fst (updateTask b taskID (Parsed req) s)) \<in> {403, 500})"
  proof
    assume found: "GetTask b taskID s = Inr t"
    show "snd (updateTask b taskID (Parsed req) s) = snd (UpdateTask b (updateFields req t) s) \<and>
      (fst (UpdateTask b (updateFields req t) s) = None \<longrightarrow>
         fst (updateTask b taskID (Parsed req) s) =
           Json 200 \<lparr>Message = ''Task updated successfully'',
                      Data = TaskData (updateFields req t)\<rparr>) \<and>
      (fst (UpdateTask b (updateFields req t) s) \<noteq> None \<longrightarrow>
         statusCode (fst (updateTask b taskID (Parsed req) s)) \<in> {403, 500})"
      by (cases "UpdateTask b (updateFields req t) s")
        (auto simp: updateTask_found [OF found] status_defs split: option.splits)
  qed
  have inmem: "reachable m \<and> tasks m taskID = Some t \<longrightarrow>
      updateTask InMemory taskID (Parsed req) m =
        (Json 200 \<lparr>Message = ''Task updated successfully'',
                    Data = TaskData (updateFields req t)\<rparr>,
         m\<lparr>tasks := (tasks m)(taskID \<mapsto> updateFields req t)\<rparr>)"
    using updateTask_InMemory_present [of m taskID t req] by (simp add: StatusOK_def)
  have gcs: "GetTask GCS taskID g = Inr t \<and>
      json_Marshal (faults g) (updateFields req t) = Inr content \<and>
      Write_err (faults g) (objectName (ID t)) = None \<and>
      Close_err (faults g) (objectName (ID t)) = None \<longrightarrow>
      updateTask GCS taskID (Parsed req) g =
        (Json 200 \<lparr>Message = ''Task updated successfully'',
                    Data = TaskData (updateFields req t)\<rparr>,
         g\<lparr>objects := (objects g)(objectName (ID t) \<mapsto> content)\<rparr>)"
  proof
    assume h: "GetTask GCS taskID g = Inr t \<and>
      json_Marshal (faults g) (updateFields req t) = Inr content \<and>
      Write_err (faults g) (objectName (ID t)) = None \<and>
      Close_err (faults g) (objectName (ID t)) = None"
    then have "GCSStorage_UpdateTask (updateFields req t) g =
        (None, g\<lparr>objects := (objects g)(objectName (ID (updateFields req t)) \<mapsto> content)\<rparr>)"
      by (intro GCSStorage_UpdateTask_written) (simp_all add: updateFields_ID)
    then have "UpdateTask GCS (updateFields req t) g =
        (None, g\<lparr>objects := (objects g)(objectName (ID t) \<mapsto> content)\<rparr>)"
      by (simp add: GCS_def updateFields_ID)
    moreover have "GetTask GCS taskID g = Inr t"
      using h by simp
    ultimately show "updateTask GCS taskID (Parsed req) g =
        (Json 200 \<lparr>Message = ''Task updated successfully'',
                    Data = TaskData (updateFields req t)\<rparr>,
         g\<lparr>objects := (objects g)(objectName (ID t) \<mapsto> content)\<rparr>)"
      by (simp add: updateTask_found StatusOK_def)
  qed
  have fail_m: "statusCode (fst (updateTask InMemory taskID reqBody m)) \<noteq> 200 \<longrightarrow>
      snd (updateTask InMemory taskID reqBody m) = m"
    using updateTask_InMemory_not_OK by blast
  have fail_g: "statusCode (fst (updateTask GCS taskID reqBody g)) \<noteq> 200 \<longrightarrow>
      snd (updateTask GCS taskID reqBody g) = g"
    using updateTask_GCS_not_OK by blast
  from fields generic inmem gcs fail_m fail_g show ?thesis
    by (intro conjI)
qed


theorem updateTask_frame_witness:
  "reachable (snd (InMemoryStorage_CreateTask milk NewInMemoryStorage)) \<and>
   tasks (snd (InMemoryStorage_CreateTask milk NewInMemoryStorage)) ''x'' = Some milk \<and>
   GetTask InMemory ''x'' (snd (InMemoryStorage_CreateTask milk NewInMemoryStorage)) = Inr milk \<and>
   updateTask InMemory ''x''
     (Parsed \<lparr>TaskUpdateRequest.Text = None, TaskUpdateRequest.Completed = Some True\<rparr>)
     (snd (InMemoryStorage_CreateTask milk NewInMemoryStorage))
   = (Json 200 \<lparr>Message = ''Task updated successfully'',
                  Data = TaskData (milk\<lparr>Task.Completed := True\<rparr>)\<rparr>,
      \<lparr>tasks = [''x'' \<mapsto> milk\<lparr>Task.Completed := True\<rparr>]\<rparr>) \<and>
   GetTask GCS ''x'' milk_bucket = Inr milk \<and>
   json_Marshal (faults milk_bucket) (milk\<lparr>Task.Text := ''buy bread''\<rparr>)
     = Inr (TaskJSON (milk\<lparr>Task.Text := ''buy bread''\<rparr>)) \<and>
   Write_err (faults milk_bucket) (objectName ''x'') = None \<and>
   Close_err (faults milk_bucket) (objectName ''x'') = None \<and>
   updateTask GCS ''x''
     (Parsed \<lparr>TaskUpdateRequest.Text = Some ''buy bread'', TaskUpdateRequest.Completed = None\<rparr>)
     milk_bucket
   = (Json 200 \<lparr>Message = ''Task updated successfully'',
                  Data = TaskData (milk\<lparr>Task.Text := ''buy bread''\<rparr>)\<rparr>,
      milk_bucket\<lparr>objects :=
        [''task-x.json'' \<mapsto> TaskJSON (milk\<lparr>Task.Text := ''buy bread''\<rparr>)]\<rparr>) \<and>
   GetTask GCS ''x'' refusing_bucket = Inr milk \<and>
   fst (UpdateTask GCS (milk\<lparr>Task.Completed := True\<rparr>) refusing_bucket) \<noteq> None \<and>
   statusCode (fst (updateTask GCS ''x''
     (Parsed \<lparr>TaskUpdateRequest.Text = None, TaskUpdateRequest.Completed = Some True\<rparr>)
     refusing_bucket)) = 500 \<and>
   snd (updateTask GCS ''x''
     (Parsed \<lparr>TaskUpdateRequest.Text = None, TaskUpdateRequest.Completed = Some True\<rparr>)
     refusing_bucket) = refusing_bucket"
proof -
  let ?m = "snd (InMemoryStorage_CreateTask milk NewInMemoryStorage)"
  let ?done = "\<lparr>TaskUpdateRequest.Text = None, TaskUpdateRequest.Completed = Some True\<rparr>"
  let ?bread = "\<lparr>TaskUpdateRequest.Text = Some ''buy bread'', TaskUpdateRequest.Completed = None\<rparr>"
  have r: "reachable ?m"
    by (rule reachable.create [OF reachable.new])
  have p: "tasks ?m ''x'' = Some milk"
    by (simp add: InMemoryStorage_CreateTask_def milk_def)
  have gm: "GetTask InMemory ''x'' ?m = Inr milk"
    using p by (simp add: InMemory_defs)
  have u1: "updateFields ?done milk = milk\<lparr>Task.Completed := True\<rparr>"
    by (simp add: updateFields_def)
  have u2: "updateFields ?bread milk = milk\<lparr>Task.Text := ''buy bread''\<rparr>"
    by (simp add: updateFields_def)
  have i: "ID milk = ''x''"
    by (simp add: milk_def)
  have gg: "GetTask GCS ''x'' milk_bucket = Inr milk"
    by (simp add: GCS_defs milk_bucket_def no_faults_def objectName_def)
  have env: "json_Marshal (faults milk_bucket) (milk\<lparr>Task.Text := ''buy bread''\<rparr>)
      = Inr (TaskJSON (milk\<lparr>Task.Text := ''buy bread''\<rparr>))"
    "Write_err (faults milk_bucket) (objectName ''x'') = None"
    "Close_err (faults milk_bucket) (objectName ''x'') = None"
    by (simp_all add: milk_bucket_def no_faults_def)
  have gr: "GetTask GCS ''x'' refusing_bucket = Inr milk"
    by (simp add: GCS_defs refusing_bucket_def no_faults_def objectName_def)
  have fr: "fst (UpdateTask GCS (milk\<lparr>Task.Completed := True\<rparr>) refusing_bucket) \<noteq> None"
    by (simp add: GCS_defs refusing_bucket_def no_faults_def)
  have e3: "statusCode (fst (updateTask GCS ''x'' (Parsed ?done) refusing_bucket)) = 500"
    by (simp add: updateTask_def GCS_defs refusing_bucket_def no_faults_def objectName_def
        isPermissionError_def path_Base_def status_defs Let_def)
  have a1: "updateTask InMemory ''x'' (Parsed ?done) ?m =
      (Json 200 \<lparr>Message = ''Task updated successfully'',
                  Data = TaskData (updateFields ?done milk)\<rparr>,
       ?m\<lparr>tasks := (tasks ?m)(''x'' \<mapsto> updateFields ?done milk)\<rparr>)"
  proof -
    have "reachable ?m \<and> tasks ?m ''x'' = Some milk \<longrightarrow>
        updateTask InMemory ''x'' (Parsed ?done) ?m =
          (Json 200 \<lparr>Message = ''Task updated successfully'',
                      Data = TaskData (updateFields ?done milk)\<rparr>,
           ?m\<lparr>tasks := (tasks ?m)(''x'' \<mapsto> updateFields ?done milk)\<rparr>)"
      using updateTask_frame [where req = ?done and t = milk and taskID = "''x''"
          and b = InMemory and s = ?m and m = ?m and g = milk_bucket and content = "TaskJSON (milk\<lparr>Task.Text := ''buy bread''\<rparr>)" and reqBody = "Parsed ?done"]
      by (elim conjE) assumption
    with r p show ?thesis by simp
  qed
  have env': "GetTask GCS ''x'' milk_bucket = Inr milk \<and>
      json_Marshal (faults milk_bucket) (updateFields ?bread milk)
        = Inr (TaskJSON (milk\<lparr>Task.Text := ''buy bread''\<rparr>)) \<and>
      Write_err (faults milk_bucket) (objectName (ID milk)) = None \<and>
      Close_err (faults milk_bucket) (objectName (ID milk)) = None"
    using gg env unfolding u2 i by (intro conjI)
  have a2: "updateTask GCS ''x'' (Parsed ?bread) milk_bucket =
      (Json 200 \<lparr>Message = ''Task updated successfully'',
                  Data = TaskData (updateFields ?bread milk)\<rparr>,
       milk_bucket\<lparr>objects := (objects milk_bucket)(objectName (ID milk) \<mapsto>
         TaskJSON (milk\<lparr>Task.Text := ''buy bread''\<rparr>))\<rparr>)"
  proof -
    have "GetTask GCS ''x'' milk_bucket = Inr milk \<and>
        json_Marshal (faults milk_bucket) (updateFields ?bread milk)
          = Inr (TaskJSON (milk\<lparr>Task.Text := ''buy bread''\<rparr>)) \<and>
        Write_err (faults milk_bucket) (objectName (ID milk)) = None \<and>
        Close_err (faults milk_bucket) (objectName (ID milk)) = None \<longrightarrow>
        updateTask GCS ''x'' (Parsed ?bread) milk_bucket =
          (Json 200 \<lparr>Message = ''Task updated successfully'',
                      Data = TaskData (updateFields ?bread milk)\<rparr>,
           milk_bucket\<lparr>objects := (objects milk_bucket)(objectName (ID milk) \<mapsto>
             TaskJSON (milk\<lparr>Task.Text := ''buy bread''\<rparr>))\<rparr>)"
      using updateTask_frame [where req = ?bread and t = milk and taskID = "''x''"
          and b = GCS and s = milk_bucket and m = ?m and g = milk_bucket
          and content = "TaskJSON (milk\<lparr>Task.Text := ''buy bread''\<rparr>)"
          and reqBody = "Parsed ?bread"]
      by (elim conjE) assumption
    then show ?thesis using env' by (rule mp)
  qed
  have a3: "snd (updateTask GCS ''x'' (Parsed ?done) refusing_bucket) = refusing_bucket"
  proof -
    have "statusCode (fst (updateTask GCS ''x'' (Parsed ?done) refusing_bucket)) \<noteq> 200 \<longrightarrow>
        snd (updateTask GCS ''x'' (Parsed ?done) refusing_bucket) = refusing_bucket"
      using updateTask_frame [where req = ?done and t = milk and taskID = "''x''"
          and b = GCS and s = refusing_bucket and m = ?m and g = refusing_bucket
          and content = "TaskJSON milk" and reqBody = "Parsed ?done"]
      by (elim conjE) assumption
    moreover have "statusCode (fst (updateTask GCS ''x'' (Parsed ?done) refusing_bucket)) \<noteq> 200"
      unfolding e3 by simp
    ultimately show ?thesis by (rule mp)
  qed
  have ob: "(objects milk_bucket)(objectName (ID milk) \<mapsto>
        TaskJSON (milk\<lparr>Task.Text := ''buy bread''\<rparr>))
      = [''task-x.json'' \<mapsto> TaskJSON (milk\<lparr>Task.Text := ''buy bread''\<rparr>)]"
    by (simp add: milk_bucket_def objectName_def milk_def)
  have st: "?m\<lparr>tasks := (tasks ?m)(''x'' \<mapsto> milk\<lparr>Task.Completed := True\<rparr>)\<rparr>
      = \<lparr>tasks = [''x'' \<mapsto> milk\<lparr>Task.Completed := True\<rparr>]\<rparr>"
    by (simp add: InMemoryStorage_CreateTask_def NewInMemoryStorage_def milk_def)
  from a1 have b1: "updateTask InMemory ''x'' (Parsed ?done) ?m =
      (Json 200 \<lparr>Message = ''Task updated successfully'',
                  Data = TaskData (milk\<lparr>Task.Completed := True\<rparr>)\<rparr>,
       \<lparr>tasks = [''x'' \<mapsto> milk\<lparr>Task.Completed := True\<rparr>]\<rparr>)"
    unfolding u1 st .
  from a2 have b2: "updateTask GCS ''x'' (Parsed ?bread) milk_bucket =
      (Json 200 \<lparr>Message = ''Task updated successfully'',
                  Data = TaskData (milk\<lparr>Task.Text := ''buy bread''\<rparr>)\<rparr>,
       milk_bucket\<lparr>objects :=
         [''task-x.json'' \<mapsto> TaskJSON (milk\<lparr>Task.Text := ''buy bread''\<rparr>)]\<rparr>)"
    unfolding u2 ob .
  from r p gm b1 gg env b2 gr fr e3 a3 show ?thesis
    by (intro conjI)
qed

text \<open>
  C9. For every stored task, an update request that supplies the empty string as
  text is not rejected by validation: with any backend the answer is not 400,
  the task handed to the backend's update has the empty text, and when that
  update succeeds the answer is 200. With the in-memory backend it always
  succeeds and the task stored under the id then has the empty text. With the
  object-storage backend it succeeds when the marshalling and the two writer
  calls succeed, and a get of the id then returns a task with the empty text.
\<close>

theorem updateTask_blank_text:
  assumes "TaskUpdateRequest.Text req = Some ''''"
  shows "Task.Text (updateFields req t) = '''' \<and>
    (GetTask b taskID s = Inr t \<longrightarrow>
       statusCode (fst (updateTask b taskID (Parsed req) s)) \<noteq> 400 \<and>
       snd (updateTask b taskID (Parsed req) s) = snd (UpdateTask b (updateFields req t) s) \<and>
       (fst (UpdateTask b (updateFields req t) s) = None \<longrightarrow>
          fst (updateTask b taskID (Parsed req) s) =
            Json 200 \<lparr>Message = ''Task updated successfully'',
                       Data = TaskData (updateFields req t)\<rparr>)) \<and>
    (reachable m \<and> tasks m taskID = Some t \<longrightarrow>
       statusCode (fst (updateTask InMemory taskID (Parsed req) m)) = 200 \<and>
       map_option Task.Text (tasks (snd (updateTask InMemory taskID (Parsed req) m)) taskID)
         = Some '''') \<and>
    (GetTask GCS taskID g = Inr t \<and> ID t = taskID \<and>
     json_Marshal (faults g) (updateFields req t) = Inr (TaskJSON (updateFields req t)) \<and>
     Write_err (faults g) (objectName taskID) = None \<and>
     Close_err (faults g) (objectName taskID) = None \<longrightarrow>
       statusCode (fst (updateTask GCS taskID (Parsed req) g)) = 200 \<and>
       (\<exists>t'. GetTask GCS taskID (snd (updateTask GCS taskID (Parsed req) g)) = Inr t' \<and>
             Task.Text t' = ''''))"
proof -
  have blank: "Task.Text (updateFields req t) = ''''"
    using assms by (simp add: updateFields_Text)
  have generic: "GetTask b taskID s = Inr t \<longrightarrow>
       statusCode (fst (updateTask b taskID (Parsed req) s)) \<noteq> 400 \<and>
       snd (updateTask b taskID (Parsed req) s) = snd (UpdateTask b (updateFields req t) s) \<and>
       (fst (UpdateTask b (updateFields req t) s) = None \<longrightarrow>
          fst (updateTask b taskID (Parsed req) s) =
            Json 200 \<lparr>Message = ''Task updated successfully'',
                       Data = TaskData (updateFields req t)\<rparr>)"
  proof
    assume found: "GetTask b taskID s = Inr t"
    show "statusCode (fst (updateTask b taskID (Parsed req) s)) \<noteq> 400 \<and>
       snd (updateTask b taskID (Parsed req) s) = snd (UpdateTask b (updateFields req t) s) \<and>
       (fst (UpdateTask b (updateFields req t) s) = None \<longrightarrow>
          fst (updateTask b taskID (Parsed req) s) =
            Json 200 \<lparr>Message = ''Task updated successfully'',
                       Data = TaskData (updateFields req t)\<rparr>)"
      by (cases "UpdateTask b (updateFields req t) s")
        (auto simp: updateTask_found [OF found] status_defs split: option.splits)
  qed
  have inmem: "reachable m \<and> tasks m taskID = Some t \<longrightarrow>
       statusCode (fst (updateTask InMemory taskID (Parsed req) m)) = 200 \<and>
       map_option Task.Text (tasks (snd (updateTask InMemory taskID (Parsed req) m)) taskID)
         = Some ''''"
    using updateTask_InMemory_present [of m taskID t req] blank
    by (auto simp: StatusOK_def)
  have gcs: "GetTask GCS taskID g = Inr t \<and> ID t = taskID \<and>
     json_Marshal (faults g) (updateFields req t) = Inr (TaskJSON (updateFields req t)) \<and>
     Write_err (faults g) (objectName taskID) = None \<and>
     Close_err (faults g) (objectName taskID) = None \<longrightarrow>
       statusCode (fst (updateTask GCS taskID (Parsed req) g)) = 200 \<and>
       (\<exists>t'. GetTask GCS taskID (snd (updateTask GCS taskID (Parsed req) g)) = Inr t' \<and>
             Task.Text t' = '''')"
  proof
    assume h: "GetTask GCS taskID g = Inr t \<and> ID t = taskID \<and>
     json_Marshal (faults g) (updateFields req t) = Inr (TaskJSON (updateFields req t)) \<and>
     Write_err (faults g) (objectName taskID) = None \<and>
     Close_err (faults g) (objectName taskID) = None"
    let ?t' = "updateFields req t"
    let ?g' = "g\<lparr>objects := (objects g)(objectName taskID \<mapsto> TaskJSON ?t')\<rparr>"
    have found: "GetTask GCS taskID g = Inr t"
      using h by simp
    have opens: "NewReader_err (faults g) (objectName taskID) = None"
      using found by (auto simp: GCS_defs split: option.splits sum.splits)
    have "GCSStorage_UpdateTask ?t' g =
        (None, g\<lparr>objects := (objects g)(objectName (ID ?t') \<mapsto> TaskJSON ?t')\<rparr>)"
      using h by (intro GCSStorage_UpdateTask_written) (simp_all add: updateFields_ID)
    then have "UpdateTask GCS ?t' g = (None, ?g')"
      using h by (simp add: GCS_def updateFields_ID)
    then have upd: "updateTask GCS taskID (Parsed req) g =
        (Json 200 \<lparr>Message = ''Task updated successfully'', Data = TaskData ?t'\<rparr>, ?g')"
      by (simp add: updateTask_found [OF found] StatusOK_def)
    have "GetTask GCS taskID ?g' = Inr ?t'"
      using opens by (simp add: GCS_defs)
    then show "statusCode (fst (updateTask GCS taskID (Parsed req) g)) = 200 \<and>
       (\<exists>t'. GetTask GCS taskID (snd (updateTask GCS taskID (Parsed req) g)) = Inr t' \<and>
             Task.Text t' = '''')"
      using upd blank by simp
  qed
  from blank generic inmem gcs show ?thesis
    by (intro conjI)
qed


theorem updateTask_blank_text_witness:
  "TaskUpdateRequest.Text
     \<lparr>TaskUpdateRequest.Text = Some '''', TaskUpdateRequest.Completed = None\<rparr> = Some '''' \<and>
   Task.Text milk \<noteq> '''' \<and>
   reachable (snd (InMemoryStorage_CreateTask milk NewInMemoryStorage)) \<and>
   tasks (snd (InMemoryStorage_CreateTask milk NewInMemoryStorage)) ''x'' = Some milk \<and>
   GetTask InMemory ''x'' (snd (InMemoryStorage_CreateTask milk NewInMemoryStorage)) = Inr milk \<and>
   updateTask InMemory ''x''
     (Parsed \<lparr>TaskUpdateRequest.Text = Some '''', TaskUpdateRequest.Completed = None\<rparr>)
     (snd (InMemoryStorage_CreateTask milk NewInMemoryStorage))
   = (Json 200 \<lparr>Message = ''Task updated successfully'',
                  Data = TaskData (milk\<lparr>Task.Text := ''''\<rparr>)\<rparr>,
      \<lparr>tasks = [''x'' \<mapsto> milk\<lparr>Task.Text := ''''\<rparr>]\<rparr>) \<and>
   GetTask GCS ''x'' milk_bucket = Inr milk \<and> ID milk = ''x'' \<and>
   json_Marshal (faults milk_bucket) (milk\<lparr>Task.Text := ''''\<rparr>)
     = Inr (TaskJSON (milk\<lparr>Task.Text := ''''\<rparr>)) \<and>
   Write_err (faults milk_bucket) (objectName ''x'') = None \<and>
   Close_err (faults milk_bucket) (objectName ''x'') = None \<and>
   updateTask GCS ''x''
     (Parsed \<lparr>TaskUpdateRequest.Text = Some '''', TaskUpdateRequest.Completed = None\<rparr>)
     milk_bucket
   = (Json 200 \<lparr>Message = ''Task updated successfully'',
                  Data = TaskData (milk\<lparr>Task.Text := ''''\<rparr>)\<rparr>,
      milk_bucket\<lparr>objects := [''task-x.json'' \<mapsto> TaskJSON (milk\<lparr>Task.Text := ''''\<rparr>)]\<rparr>) \<and>
   GetTask GCS ''x''
     (milk_bucket\<lparr>objects := [''task-x.json'' \<mapsto> TaskJSON (milk\<lparr>Task.Text := ''''\<rparr>)]\<rparr>)
   = Inr (milk\<lparr>Task.Text := ''''\<rparr>) \<and>
   statusCode (fst (updateTask InMemory ''x''
     (Parsed \<lparr>TaskUpdateRequest.Text = Some '''', TaskUpdateRequest.Completed = None\<rparr>)
     (snd (InMemoryStorage_CreateTask milk NewInMemoryStorage)))) = 200 \<and>
   map_option Task.Text (tasks (snd (updateTask InMemory ''x''
     (Parsed \<lparr>TaskUpdateRequest.Text = Some '''', TaskUpdateRequest.Completed = None\<rparr>)
     (snd (InMemoryStorage_CreateTask milk NewInMemoryStorage)))) ''x'') = Some '''' \<and>
   statusCode (fst (updateTask GCS ''x''
     (Parsed \<lparr>TaskUpdateRequest.Text = Some '''', TaskUpdateRequest.Completed = None\<rparr>)
     milk_bucket)) = 200"
proof -
  let ?m = "snd (InMemoryStorage_CreateTask milk NewInMemoryStorage)"
  let ?blank = "\<lparr>TaskUpdateRequest.Text = Some '''', TaskUpdateRequest.Completed = None\<rparr>"
  have q: "TaskUpdateRequest.Text ?blank = Some ''''"
    by simp
  have n: "Task.Text milk \<noteq> ''''"
    by (simp add: milk_def)
  have r: "reachable ?m"
    by (rule reachable.create [OF reachable.new])
  have p: "tasks ?m ''x'' = Some milk"
    by (simp add: InMemoryStorage_CreateTask_def milk_def)
  have gm: "GetTask InMemory ''x'' ?m = Inr milk"
    using p by (simp add: InMemory_defs)
  have u: "updateFields ?blank milk = milk\<lparr>Task.Text := ''''\<rparr>"
    by (simp add: updateFields_def)
  have i: "ID milk = ''x''"
    by (simp add: milk_def)
  have gg: "GetTask GCS ''x'' milk_bucket = Inr milk"
    by (simp add: GCS_defs milk_bucket_def no_faults_def objectName_def)
  have env: "json_Marshal (faults milk_bucket) (milk\<lparr>Task.Text := ''''\<rparr>)
      = Inr (TaskJSON (milk\<lparr>Task.Text := ''''\<rparr>))"
    "Write_err (faults milk_bucket) (objectName ''x'') = None"
    "Close_err (faults milk_bucket) (objectName ''x'') = None"
    by (simp_all add: milk_bucket_def no_faults_def)
  note w = updateTask_blank_text [OF q, where t = milk and b = InMemory and taskID = "''x''"
      and s = ?m and m = ?m and g = milk_bucket]
  have a1: "statusCode (fst (updateTask InMemory ''x'' (Parsed ?blank) ?m)) = 200"
    and a2: "map_option Task.Text (tasks (snd (updateTask InMemory ''x'' (Parsed ?blank) ?m)) ''x'')
      = Some ''''"
    using w r p by blast+
  have a3: "statusCode (fst (updateTask GCS ''x'' (Parsed ?blank) milk_bucket)) = 200"
    using w gg i env unfolding u by blast
  have e1: "updateTask InMemory ''x'' (Parsed ?blank) ?m
     = (Json 200 \<lparr>Message = ''Task updated successfully'',
                  Data = TaskData (milk\<lparr>Task.Text := ''''\<rparr>)\<rparr>,
      \<lparr>tasks = [''x'' \<mapsto> milk\<lparr>Task.Text := ''''\<rparr>]\<rparr>)"
    by (simp add: updateTask_def InMemory_defs updateFields_def NewInMemoryStorage_def
        milk_def StatusOK_def Let_def)
  have e2: "updateTask GCS ''x'' (Parsed ?blank) milk_bucket
     = (Json 200 \<lparr>Message = ''Task updated successfully'',
                  Data = TaskData (milk\<lparr>Task.Text := ''''\<rparr>)\<rparr>,
        milk_bucket\<lparr>objects := [''task-x.json'' \<mapsto> TaskJSON (milk\<lparr>Task.Text := ''''\<rparr>)]\<rparr>)"
    by (simp add: updateTask_def GCS_defs updateFields_def milk_bucket_def no_faults_def
        objectName_def milk_def StatusOK_def Let_def)
  have e3: "GetTask GCS ''x''
     (milk_bucket\<lparr>objects := [''task-x.json'' \<mapsto> TaskJSON (milk\<lparr>Task.Text := ''''\<rparr>)]\<rparr>)
     = Inr (milk\<lparr>Task.Text := ''''\<rparr>)"
    by (simp add: GCS_defs milk_bucket_def no_faults_def objectName_def)
  from q n r p gm e1 gg i env e2 e3 a1 a2 a3 show ?thesis
    by (intro conjI)
qed

text \<open>
  C10. The in-memory operations return no error other than ``task not found'',
  \<open>isPermissionError\<close> is false of it, and with the in-memory backend no handler
  answers 403.
\<close>

theorem InMemory_never_forbidden:
  "(\<exists>ts. InMemoryStorage_ListTasks ks s = Inr ts) \<and>
   fst (InMemoryStorage_CreateTask task s) = None \<and>
   fst (InMemoryStorage_UpdateTask task s) \<in> {None, Some ''task not found''} \<and>
   fst (InMemoryStorage_DeleteTask taskID s) \<in> {None, Some ''task not found''} \<and>
   (case InMemoryStorage_GetTask taskID s of
      Inl err \<Rightarrow> err = ''task not found'' | Inr found \<Rightarrow> True) \<and>
   isPermissionError (Some ''task not found'') = False \<and>
   statusCode (fst (getTasks InMemory ks s)) \<noteq> 403 \<and>
   statusCode (fst (createTask InMemory createBody newID now s)) \<noteq> 403 \<and>
   statusCode (fst (updateTask InMemory taskID updateBody s)) \<noteq> 403 \<and>
   statusCode (fst (deleteTask InMemory taskID s)) \<noteq> 403 \<and>
   statusCode (healthCheck True bucket timestamp) \<noteq> 403 \<and>
   statusCode (getBucketInfo True bucket) \<noteq> 403"
proof -
  have ops: "(\<exists>ts. InMemoryStorage_ListTasks ks s = Inr ts) \<and>
      fst (InMemoryStorage_CreateTask task s) = None \<and>
      fst (InMemoryStorage_UpdateTask task s) \<in> {None, Some ''task not found''} \<and>
      fst (InMemoryStorage_DeleteTask taskID s) \<in> {None, Some ''task not found''} \<and>
      (case InMemoryStorage_GetTask taskID s of
         Inl err \<Rightarrow> err = ''task not found'' | Inr found \<Rightarrow> True)"
    by (simp add: InMemory_defs split: option.splits)
  have h1: "statusCode (fst (getTasks InMemory ks s)) \<noteq> 403"
    by (simp add: getTasks_def InMemory_defs status_defs)
  have h2: "statusCode (fst (createTask InMemory createBody newID now s)) \<noteq> 403"
    by (simp add: createTask_def InMemory_defs status_defs Let_def split: body.splits)
  have h3: "statusCode (fst (updateTask InMemory taskID updateBody s)) \<noteq> 403"
    by (simp add: updateTask_def InMemory_defs status_defs Let_def
        isPermissionError_task_not_found split: body.splits option.splits)
  have h4: "statusCode (fst (deleteTask InMemory taskID s)) \<noteq> 403"
    by (simp add: deleteTask_def InMemory_defs status_defs
        isPermissionError_task_not_found split: option.splits)
  have h5: "statusCode (healthCheck True bucket timestamp) \<noteq> 403"
    by (simp add: healthCheck_def status_defs)
  have h6: "statusCode (getBucketInfo True bucket) \<noteq> 403"
    by (simp add: getBucketInfo_def status_defs)
  from ops isPermissionError_task_not_found h1 h2 h3 h4 h5 h6 show ?thesis
    by blast
qed

end
